theory Spec2Isabelle
  imports Complex_Main "HOL-Library.Multiset"
begin

section \<open>Bounding boxes: \<^verbatim>\<open>src/bounding_box.py\<close>\<close>

text \<open>
  \<^verbatim>\<open>class BoundingBox\<close> has four coordinates and a score. The annotations declare the
  coordinates \<^verbatim>\<open>int\<close>, while \<^verbatim>\<open>crop_image\<close> floors and ceils them, so the coordinate
  type is a parameter: the geometry needs only a linear order, the translations an
  addition, the crop a floor and a ceiling. Python's \<^verbatim>\<open>int\<close> is \<^typ>\<open>int\<close>. A finite float
  is a real number, and comparison, \<^verbatim>\<open>min\<close>, \<^verbatim>\<open>max\<close>, floor and ceiling are exact on it, so
  for these \<^typ>\<open>real\<close> stands for float coordinates. The sum of two floats is rounded:
  it is the \<open>+\<close> of the type \<open>double\<close> below, not that of \<^typ>\<open>real\<close>.
  The score is a finite number (no NaN); \<^verbatim>\<open>max\<close> on two of them does no arithmetic.
  A default argument (\<^verbatim>\<open>score = 0.0\<close>) is passed explicitly.
\<close>

record 'a BoundingBox =
  x1 :: 'a
  y1 :: 'a
  x2 :: 'a
  y2 :: 'a
  score :: real

definition to_list :: "'a BoundingBox \<Rightarrow> 'a list" where
  "to_list b = [x1 b, y1 b, x2 b, y2 b]"

definition translate :: "'a::plus BoundingBox \<Rightarrow> 'a \<Rightarrow> 'a \<Rightarrow> 'a BoundingBox" where
  "translate b dx dy =
     \<lparr>x1 = x1 b + dx, y1 = y1 b + dy, x2 = x2 b + dx, y2 = y2 b + dy, score = score b\<rparr>"

text \<open>
  \<^verbatim>\<open>from_relative\<close> unpacks \<^verbatim>\<open>candidate_block_coordinate[:2]\<close> into two names and then
  \<^verbatim>\<open>detected_box_coordinate\<close> into four; either unpacking raises \<^verbatim>\<open>ValueError\<close> when the
  number of elements is not the number of names.
\<close>

datatype error = ValueError

definition from_relative :: "'a::plus list \<Rightarrow> 'a list \<Rightarrow> real \<Rightarrow> error + 'a BoundingBox" where
  "from_relative detected_box_coordinate candidate_block_coordinate s =
     (case take 2 candidate_block_coordinate of
        [block_x, block_y] \<Rightarrow>
          (case detected_box_coordinate of
             [rel_x1, rel_y1, rel_x2, rel_y2] \<Rightarrow>
               Inr \<lparr>x1 = rel_x1 + block_x, y1 = rel_y1 + block_y,
                    x2 = rel_x2 + block_x, y2 = rel_y2 + block_y, score = s\<rparr>
           | _ \<Rightarrow> Inl ValueError)
      | _ \<Rightarrow> Inl ValueError)"

definition intersects :: "'a::linorder BoundingBox \<Rightarrow> 'a BoundingBox \<Rightarrow> bool" where
  "intersects a b = (\<not> (x2 a < x1 b \<or> x1 a > x2 b \<or> y2 a < y1 b \<or> y1 a > y2 b))"

definition merge :: "'a::linorder BoundingBox \<Rightarrow> 'a BoundingBox \<Rightarrow> 'a BoundingBox" where
  "merge a b =
     \<lparr>x1 = min (x1 a) (x1 b), y1 = min (y1 a) (y1 b),
      x2 = max (x2 a) (x2 b), y2 = max (y2 a) (y2 b),
      score = max (score a) (score b)\<rparr>"

text \<open>
  \<^verbatim>\<open>crop_image\<close> reads \<^verbatim>\<open>height, width = image.shape[:2]\<close>, computes four integer bounds
  and returns the slice \<^verbatim>\<open>image[y1:y2, x1:x2]\<close>. \<open>crop_window\<close> is the computation of the
  bounds, returned in the order \<open>(x1, y1, x2, y2)\<close>.
\<close>

definition crop_window :: "'a::floor_ceiling BoundingBox \<Rightarrow> int \<Rightarrow> int \<Rightarrow> int \<times> int \<times> int \<times> int" where
  "crop_window b height width =
     (max \<lfloor>x1 b\<rfloor> 0, max \<lfloor>y1 b\<rfloor> 0, min \<lceil>x2 b\<rceil> width, min \<lceil>y2 b\<rceil> height)"

section \<open>Python floats\<close>

text \<open>
  \<^verbatim>\<open>double_detection\<close> builds its rectangles from the detector's float coordinates, so
  the \<^verbatim>\<open>+\<close> in \<^verbatim>\<open>translate\<close> and \<^verbatim>\<open>from_relative\<close> is then the addition of Python floats:
  IEEE 754 binary64, rounded to the nearest representable number, ties to the even
  significand. A float is a finite rational number, an infinity or NaN; the two zeros
  are not told apart (they compare equal in Python). An \<^verbatim>\<open>int\<close> added to a float is
  converted to the float of the same value first.

  \<open>bit_length n\<close> is the number of binary digits of a positive integer, \<open>pow2 e\<close> the
  power \<open>2^e\<close> for an integer exponent, and \<open>floor_log2 q\<close> the exponent \<open>e\<close> with
  \<open>2^e \<le> |q| < 2^(e+1)\<close> for \<open>q \<noteq> 0\<close>.
\<close>

datatype double = Finite rat | PosInf | NegInf | NaN

function bit_length :: "int \<Rightarrow> int" where
  "bit_length n = (if n \<le> 0 then 0 else 1 + bit_length (n div 2))"
  by pat_completeness auto
termination
  by (relation "measure nat") auto

declare bit_length.simps [simp del]

definition pow2 :: "int \<Rightarrow> rat" where
  "pow2 e = (if 0 \<le> e then 2 ^ nat e else 1 / 2 ^ nat (- e))"

definition floor_log2 :: "rat \<Rightarrow> int" where
  "floor_log2 q =
     (case quotient_of \<bar>q\<bar> of (n, d) \<Rightarrow>
        let k = bit_length n - bit_length d
        in if pow2 k \<le> \<bar>q\<bar> then k else k - 1)"

definition round_half_even :: "rat \<Rightarrow> int" where
  "round_half_even q =
     (let f = \<lfloor>q\<rfloor>; d = q - of_int f
      in if d < 1 / 2 then f else if 1 / 2 < d then f + 1 else if even f then f else f + 1)"

text \<open>
  Rounding to binary64: the significand has 53 bits, so the unit in the last place is
  \<open>2^(e - 52)\<close> for the exponent \<open>e\<close> of the number, and \<open>2^(-1074)\<close> below the normal
  range (\<open>e < -1022\<close>); a rounded magnitude of \<open>2^1024\<close> or more is an infinity.
\<close>

definition round_double :: "rat \<Rightarrow> double" where
  "round_double q =
     (if q = 0 then Finite 0
      else let u = pow2 (max (floor_log2 q) (- 1022) - 52);
               r = of_int (round_half_even (q / u)) * u
           in if r = 0 then Finite 0
              else if 1024 \<le> floor_log2 r then (if 0 < r then PosInf else NegInf)
              else Finite r)"

fun add_double :: "double \<Rightarrow> double \<Rightarrow> double" where
  "add_double (Finite a) (Finite b) = round_double (a + b)"
| "add_double NaN _ = NaN"
| "add_double _ NaN = NaN"
| "add_double PosInf NegInf = NaN"
| "add_double NegInf PosInf = NaN"
| "add_double PosInf _ = PosInf"
| "add_double _ PosInf = PosInf"
| "add_double NegInf _ = NegInf"
| "add_double _ NegInf = NegInf"

instantiation double :: plus
begin

definition plus_double :: "double \<Rightarrow> double \<Rightarrow> double" where
  "plus_double a b = add_double a b"

instance ..

end

section \<open>Specification predicates\<close>

text \<open>
  \<open>encloses c a\<close>: the rectangle \<open>a\<close> lies inside \<open>c\<close>, each side of \<open>a\<close> being within
  the corresponding side of \<open>c\<close>. For a box with \<open>x1 \<le> x2\<close> and \<open>y1 \<le> y2\<close> this puts all
  four of its coordinates between the sides of \<open>c\<close>.
\<close>

definition encloses :: "'a::linorder BoundingBox \<Rightarrow> 'a BoundingBox \<Rightarrow> bool" where
  "encloses c a = (x1 c \<le> x1 a \<and> y1 c \<le> y1 a \<and> x2 a \<le> x2 c \<and> y2 a \<le> y2 c)"

text \<open>
  \<open>non_intersecting bs\<close>: no rectangle of the list intersects one that stands after it.
  \<^verbatim>\<open>intersects\<close> is symmetric, so this is the postcondition the docstring of
  \<^verbatim>\<open>merge_intersection\<close> names, "a list of non-intersecting BoundingBox objects".
\<close>

fun non_intersecting :: "'a::linorder BoundingBox list \<Rightarrow> bool" where
  "non_intersecting [] = True"
| "non_intersecting (b # bs) = ((\<forall>a \<in> set bs. \<not> intersects b a) \<and> non_intersecting bs)"

section \<open>Collections of boxes\<close>

record 'a BoundingBoxes =
  boxes :: "'a BoundingBox list"

definition add_box :: "'a BoundingBoxes \<Rightarrow> 'a BoundingBox \<Rightarrow> 'a BoundingBoxes" where
  "add_box bbs box = bbs\<lparr>boxes := boxes bbs @ [box]\<rparr>"

text \<open>\<^verbatim>\<open>list.pop(i)\<close> for an index in range: the element and the list without it.\<close>

definition pop :: "nat \<Rightarrow> 'a list \<Rightarrow> 'a \<times> 'a list" where
  "pop i xs = (xs ! i, take i xs @ drop (Suc i) xs)"

text \<open>
  The inner loop of \<^verbatim>\<open>merge_intersection\<close>:
  \<^verbatim>\<open>
  while i < len(self.boxes):
      if current_box.intersects(self.boxes[i]):
          current_box = current_box.merge(self.boxes.pop(i))
      else:
          i += 1
  \<close>
  Its state is the accumulator, the remaining list and the index.
\<close>

function scan_loop ::
  "'a::linorder BoundingBox \<Rightarrow> 'a BoundingBox list \<Rightarrow> nat \<Rightarrow> 'a BoundingBox \<times> 'a BoundingBox list"
where
  "scan_loop current_box bs i =
     (if i < length bs then
        (if intersects current_box (bs ! i)
         then (case pop i bs of (b, bs') \<Rightarrow> scan_loop (merge current_box b) bs' i)
         else scan_loop current_box bs (i + 1))
      else (current_box, bs))"
  by pat_completeness auto
termination
  by (relation "measure (\<lambda>(c, bs, i). 2 * length bs - i)") (auto simp: pop_def)

declare scan_loop.simps [simp del]

lemma scan_loop_length: "length (snd (scan_loop c bs i)) \<le> length bs"
proof (induction c bs i rule: scan_loop.induct)
  case (1 c bs i)
  show ?case
  proof (cases "i < length bs")
    case False
    then show ?thesis by (subst scan_loop.simps) simp
  next
    case True
    show ?thesis
    proof (cases "intersects c (bs ! i)")
      case hit: True
      have "length (snd (scan_loop (merge c (bs ! i)) (take i bs @ drop (Suc i) bs) i))
              \<le> length (take i bs @ drop (Suc i) bs)"
        using "1.IH"(1) [OF True hit, of "bs ! i" "take i bs @ drop (Suc i) bs"]
        by (simp add: pop_def)
      with True hit show ?thesis
        by (subst scan_loop.simps) (simp add: pop_def)
    next
      case miss: False
      with True "1.IH"(2) show ?thesis
        by (subst scan_loop.simps) simp
    qed
  qed
qed

text \<open>
  The outer loop takes the seed from the front (\<^verbatim>\<open>self.boxes.pop(0)\<close>), runs the inner
  loop from index 0 and appends the accumulator to \<^verbatim>\<open>merged_boxes\<close>; it stops when the
  list is empty.
\<close>

function merge_loop ::
  "'a::linorder BoundingBox list \<Rightarrow> 'a BoundingBox list \<Rightarrow> 'a BoundingBox list"
where
  "merge_loop [] merged_boxes = merged_boxes"
| "merge_loop (b # bs) merged_boxes =
     (case scan_loop b bs 0 of
        (current_box, bs') \<Rightarrow> merge_loop bs' (merged_boxes @ [current_box]))"
  by pat_completeness auto
termination
proof (relation "measure (\<lambda>(bs, merged_boxes). length bs)")
  show "wf (measure (\<lambda>(bs, merged_boxes). length bs))" by simp
next
  fix b :: "'a BoundingBox" and bs merged_boxes x y
  assume "(x, y) = scan_loop b bs 0"
  then have "y = snd (scan_loop b bs 0)" by (metis snd_conv)
  then have "length y \<le> length bs" by (simp add: scan_loop_length)
  then show "((y, merged_boxes @ [x]), b # bs, merged_boxes)
               \<in> measure (\<lambda>(bs, merged_boxes). length bs)"
    by simp
qed

definition merge_intersection :: "'a::linorder BoundingBoxes \<Rightarrow> 'a BoundingBoxes" where
  "merge_intersection bbs = bbs\<lparr>boxes := merge_loop (boxes bbs) []\<rparr>"

section \<open>The loops, step by step\<close>

lemma scan_loop_done: "\<not> i < length bs \<Longrightarrow> scan_loop c bs i = (c, bs)"
  by (subst scan_loop.simps) simp

lemma scan_loop_step_hit:
  "i < length bs \<Longrightarrow> intersects c (bs ! i) \<Longrightarrow>
   scan_loop c bs i = scan_loop (merge c (bs ! i)) (take i bs @ drop (Suc i) bs) i"
  by (subst scan_loop.simps) (simp add: pop_def)

lemma scan_loop_step_miss:
  "i < length bs \<Longrightarrow> \<not> intersects c (bs ! i) \<Longrightarrow> scan_loop c bs i = scan_loop c bs (Suc i)"
  by (subst scan_loop.simps) simp

lemma set_pop:
  assumes "i < length bs"
  shows "set bs = insert (bs ! i) (set (take i bs @ drop (Suc i) bs))"
proof -
  have "bs = take i bs @ bs ! i # drop (Suc i) bs"
    using assms by (rule id_take_nth_drop)
  then have "set bs = set (take i bs @ bs ! i # drop (Suc i) bs)" by simp
  then show ?thesis by simp
qed

lemma encloses_refl: "encloses a a"
  by (simp add: encloses_def)

lemma encloses_trans: "encloses c b \<Longrightarrow> encloses b a \<Longrightarrow> encloses c a"
  by (auto simp: encloses_def)

lemma encloses_merge_left: "encloses (merge a b) a"
  by (simp add: merge_def encloses_def)

lemma encloses_merge_right: "encloses (merge a b) b"
  by (simp add: merge_def encloses_def)

text \<open>The accumulator only grows during a scan.\<close>

lemma scan_loop_encloses_seed: "encloses (fst (scan_loop c bs i)) c"
proof (induction c bs i rule: scan_loop.induct)
  case (1 c bs i)
  show ?case
  proof (cases "i < length bs")
    case False
    then show ?thesis by (simp add: scan_loop_done encloses_refl)
  next
    case True
    show ?thesis
    proof (cases "intersects c (bs ! i)")
      case hit: True
      have "encloses (fst (scan_loop (merge c (bs ! i)) (take i bs @ drop (Suc i) bs) i))
              (merge c (bs ! i))"
        using "1.IH"(1) [OF True hit, of "bs ! i" "take i bs @ drop (Suc i) bs"]
        by (simp add: pop_def)
      then have "encloses (fst (scan_loop c bs i)) (merge c (bs ! i))"
        by (simp add: scan_loop_step_hit [OF True hit])
      then show ?thesis by (rule encloses_trans) (rule encloses_merge_left)
    next
      case miss: False
      with True "1.IH"(2) show ?thesis by (simp add: scan_loop_step_miss)
    qed
  qed
qed

text \<open>A rectangle of the scanned list is left in the list or is inside the accumulator.\<close>

lemma scan_loop_covers:
  "a \<in> set bs \<Longrightarrow> a \<in> set (snd (scan_loop c bs i)) \<or> encloses (fst (scan_loop c bs i)) a"
proof (induction c bs i arbitrary: a rule: scan_loop.induct)
  case (1 c bs i)
  show ?case
  proof (cases "i < length bs")
    case False
    with "1.prems" show ?thesis by (simp add: scan_loop_done)
  next
    case True
    show ?thesis
    proof (cases "intersects c (bs ! i)")
      case hit: True
      let ?bs' = "take i bs @ drop (Suc i) bs"
      let ?r = "scan_loop (merge c (bs ! i)) ?bs' i"
      have eq: "scan_loop c bs i = ?r" by (rule scan_loop_step_hit [OF True hit])
      from "1.prems" set_pop [OF True] have "a = bs ! i \<or> a \<in> set ?bs'" by auto
      then show ?thesis
      proof
        assume "a = bs ! i"
        then have "encloses (merge c (bs ! i)) a" by (simp add: encloses_merge_right)
        with scan_loop_encloses_seed [of "merge c (bs ! i)" ?bs' i]
        have "encloses (fst ?r) a" by (rule encloses_trans)
        then show ?thesis by (simp add: eq)
      next
        assume "a \<in> set ?bs'"
        then have "a \<in> set (snd ?r) \<or> encloses (fst ?r) a"
          using "1.IH"(1) [OF True hit, of "bs ! i" ?bs' a] by (simp add: pop_def)
        then show ?thesis by (simp add: eq)
      qed
    next
      case miss: False
      with True "1.IH"(2) "1.prems" show ?thesis by (simp add: scan_loop_step_miss)
    qed
  qed
qed

text \<open>A scan that meets no intersecting rectangle changes nothing.\<close>

lemma scan_loop_no_hit:
  "\<forall>a \<in> set bs. \<not> intersects c a \<Longrightarrow> scan_loop c bs i = (c, bs)"
proof (induction c bs i rule: scan_loop.induct)
  case (1 c bs i)
  show ?case
  proof (cases "i < length bs")
    case False
    then show ?thesis by (rule scan_loop_done)
  next
    case True
    then have miss: "\<not> intersects c (bs ! i)" using "1.prems" by simp
    from "1.IH"(2) [OF True miss "1.prems"] show ?thesis
      by (simp add: scan_loop_step_miss [OF True miss])
  qed
qed

text \<open>What is already in \<^verbatim>\<open>merged_boxes\<close> stays there.\<close>

lemma merge_loop_keeps: "set acc \<subseteq> set (merge_loop bs acc)"
proof (induction bs acc rule: merge_loop.induct)
  case (1 acc)
  show ?case by simp
next
  case (2 b bs acc)
  obtain c rest where r: "scan_loop b bs 0 = (c, rest)" by (cases "scan_loop b bs 0")
  from "2.IH" [OF r [symmetric]] r show ?case by simp
qed

lemma merge_loop_covers:
  "a \<in> set bs \<Longrightarrow> \<exists>c \<in> set (merge_loop bs acc). encloses c a"
proof (induction bs acc arbitrary: a rule: merge_loop.induct)
  case (1 acc)
  then show ?case by simp
next
  case (2 b bs acc)
  obtain c rest where r: "scan_loop b bs 0 = (c, rest)" by (cases "scan_loop b bs 0")
  have c_in: "c \<in> set (merge_loop (b # bs) acc)"
    using merge_loop_keeps [of "acc @ [c]" rest] r by simp
  have "a = b \<or> a \<in> set bs" using "2.prems" by simp
  then show ?case
  proof
    assume "a = b"
    then have "encloses c a" using scan_loop_encloses_seed [of b bs 0] r by simp
    with c_in show ?thesis by blast
  next
    assume "a \<in> set bs"
    then have "a \<in> set rest \<or> encloses c a" using scan_loop_covers [of a bs b 0] r by simp
    then show ?thesis
    proof
      assume "a \<in> set rest"
      then have "\<exists>d \<in> set (merge_loop rest (acc @ [c])). encloses d a"
        by (rule "2.IH" [OF r [symmetric]])
      then show ?thesis using r by simp
    next
      assume "encloses c a"
      with c_in show ?thesis by blast
    qed
  qed
qed

lemma merge_loop_length: "length (merge_loop bs acc) \<le> length acc + length bs"
proof (induction bs acc rule: merge_loop.induct)
  case (1 acc)
  show ?case by simp
next
  case (2 b bs acc)
  obtain c rest where r: "scan_loop b bs 0 = (c, rest)" by (cases "scan_loop b bs 0")
  have "length rest \<le> length bs" using scan_loop_length [of b bs 0] r by simp
  with "2.IH" [OF r [symmetric]] r show ?case by simp
qed

text \<open>
  On a list that is already non-intersecting every scan is without a hit, and the
  outer loop moves the list to \<^verbatim>\<open>merged_boxes\<close> as it is: the empty collection and the
  collection of one box are not changed, and a second call changes nothing wherever
  the first one has reached the postcondition of the docstring.
\<close>

lemma merge_loop_non_intersecting:
  "non_intersecting bs \<Longrightarrow> merge_loop bs acc = acc @ bs"
proof (induction bs arbitrary: acc)
  case Nil
  show ?case by simp
next
  case (Cons b bs)
  then have "scan_loop b bs 0 = (b, bs)" by (simp add: scan_loop_no_hit)
  with Cons show ?case by simp
qed

lemma merge_intersection_non_intersecting:
  "non_intersecting (boxes bbs) \<Longrightarrow> merge_intersection bbs = bbs"
  by (simp add: merge_intersection_def merge_loop_non_intersecting)

text \<open>
  A rectangle that has been appended to \<^verbatim>\<open>merged_boxes\<close> is not compared with the
  accumulators of later seeds either. For \<open>(2,2,3,3)\<close>, \<open>(0,0,1,5)\<close>, \<open>(1,4,5,5)\<close> the
  first seed meets nothing and is appended; the second and third merge into
  \<open>(0,0,5,5)\<close>, which contains the first.
\<close>

lemma merge_loop_appended_not_retested:
  "merge_loop [\<lparr>x1 = 2::int, y1 = 2, x2 = 3, y2 = 3, score = 5 / 10\<rparr>,
               \<lparr>x1 = 0, y1 = 0, x2 = 1, y2 = 5, score = 6 / 10\<rparr>,
               \<lparr>x1 = 1, y1 = 4, x2 = 5, y2 = 5, score = 7 / 10\<rparr>] []
     = [\<lparr>x1 = 2, y1 = 2, x2 = 3, y2 = 3, score = 5 / 10\<rparr>,
        \<lparr>x1 = 0, y1 = 0, x2 = 5, y2 = 5, score = 7 / 10\<rparr>] \<and>
   intersects \<lparr>x1 = 2::int, y1 = 2, x2 = 3, y2 = 3, score = 5 / 10\<rparr>
              \<lparr>x1 = 0, y1 = 0, x2 = 5, y2 = 5, score = 7 / 10\<rparr>"
  by code_simp

text \<open>
  \<^verbatim>\<open>double_detection\<close> calls \<^verbatim>\<open>from_relative\<close> with \<^verbatim>\<open>block_rect.to_list()\<close>, a list of
  four coordinates, as the origin: the box is shifted by the top-left corner of the
  block.
\<close>

lemma from_relative_to_list:
  "from_relative [rx1, ry1, rx2, ry2] (to_list block_rect) s =
     Inr (translate \<lparr>x1 = rx1, y1 = ry1, x2 = rx2, y2 = ry2, score = s\<rparr>
            (x1 block_rect) (y1 block_rect))"
  by (simp add: from_relative_def to_list_def translate_def)


section \<open>Single rectangles\<close>

text \<open>
  C5. \<^verbatim>\<open>merge\<close> takes the smaller of the two \<open>x1\<close> and of the two \<open>y1\<close>, the larger of
  the two \<open>x2\<close> and of the two \<open>y2\<close>, and the larger score. The result encloses both
  arguments, and it is the least such rectangle: whatever encloses both arguments
  encloses the result.
\<close>

theorem merge_minimal_enclosing:
  "x1 (merge a b) = min (x1 a) (x1 b) \<and> y1 (merge a b) = min (y1 a) (y1 b) \<and>
   x2 (merge a b) = max (x2 a) (x2 b) \<and> y2 (merge a b) = max (y2 a) (y2 b) \<and>
   score (merge a b) = max (score a) (score b) \<and>
   encloses (merge a b) a \<and> encloses (merge a b) b \<and>
   (\<forall>c. encloses c a \<and> encloses c b \<longrightarrow> encloses c (merge a b))"
  by (simp add: merge_def encloses_def)

theorem merge_minimal_enclosing_witness:
  "encloses \<lparr>x1 = 0::int, y1 = 0, x2 = 9, y2 = 9, score = 0\<rparr>
            \<lparr>x1 = 1, y1 = 2, x2 = 5, y2 = 6, score = 3 / 10\<rparr> \<and>
   encloses \<lparr>x1 = 0::int, y1 = 0, x2 = 9, y2 = 9, score = 0\<rparr>
            \<lparr>x1 = 4, y1 = 1, x2 = 8, y2 = 3, score = 7 / 10\<rparr> \<and>
   encloses \<lparr>x1 = 0::int, y1 = 0, x2 = 9, y2 = 9, score = 0\<rparr>
            (merge \<lparr>x1 = 1, y1 = 2, x2 = 5, y2 = 6, score = 3 / 10\<rparr>
                   \<lparr>x1 = 4, y1 = 1, x2 = 8, y2 = 3, score = 7 / 10\<rparr>) \<and>
   merge \<lparr>x1 = 1::int, y1 = 2, x2 = 5, y2 = 6, score = 3 / 10\<rparr>
         \<lparr>x1 = 4, y1 = 1, x2 = 8, y2 = 3, score = 7 / 10\<rparr>
     = \<lparr>x1 = 1, y1 = 1, x2 = 8, y2 = 6, score = 7 / 10\<rparr>"
proof -
  let ?a = "\<lparr>x1 = 1::int, y1 = 2, x2 = 5, y2 = 6, score = 3 / 10\<rparr>"
  let ?b = "\<lparr>x1 = 4::int, y1 = 1, x2 = 8, y2 = 3, score = 7 / 10\<rparr>"
  let ?c = "\<lparr>x1 = 0::int, y1 = 0, x2 = 9, y2 = 9, score = 0\<rparr>"
  have ea: "encloses ?c ?a" and eb: "encloses ?c ?b"
    by (simp_all add: encloses_def)
  from merge_minimal_enclosing [of ?a ?b] ea eb have "encloses ?c (merge ?a ?b)"
    by blast
  moreover have "merge ?a ?b = \<lparr>x1 = 1, y1 = 1, x2 = 8, y2 = 6, score = 7 / 10\<rparr>"
    by (simp add: merge_def)
  ultimately show ?thesis using ea eb by simp
qed

text \<open>
  C6. \<^verbatim>\<open>from_relative\<close> on a local box of four coordinates and an origin list that starts
  with \<open>bx, by\<close> (and may go on) returns the local box shifted by \<open>(bx, by)\<close> with the
  given score; the elements of the origin list after the second are not used. The
  local box \<open>[2, 3, 10, 12]\<close> at the origin \<open>[100, 200]\<close> with score 0.9 is the rectangle
  \<open>(102, 203, 110, 212)\<close> with score 0.9.
\<close>

theorem from_relative_absolute:
  "from_relative [rx1, ry1, rx2, ry2] (b_x # b_y # rest) s =
     Inr \<lparr>x1 = rx1 + b_x, y1 = ry1 + b_y, x2 = rx2 + b_x, y2 = ry2 + b_y, score = s\<rparr> \<and>
   from_relative [2, 3, 10, 12] [100, 200] (9 / 10) =
     Inr \<lparr>x1 = 102::int, y1 = 203, x2 = 110, y2 = 212, score = 9 / 10\<rparr>"
  by (simp add: from_relative_def)

text \<open>Sums of floats that the translations below make, each rounded once.\<close>

lemma double_tenth: "round_double (1 / 10) = Finite (3602879701896397 / 36028797018963968)"
  by code_simp

lemma double_tenth_plus_one:
  "Finite (3602879701896397 / 36028797018963968) + Finite 1
     = Finite (2476979795053773 / 2251799813685248)"
  by code_simp

lemma double_tenth_plus_one_minus_one:
  "Finite (2476979795053773 / 2251799813685248) + Finite (- 1)
     = Finite (225179981368525 / 2251799813685248)"
  by code_simp

lemma double_one_minus_one: "Finite 1 + Finite (- 1) = Finite 0"
  by code_simp

lemma double_tenth_plus_zero:
  "Finite (3602879701896397 / 36028797018963968) + Finite 0
     = Finite (3602879701896397 / 36028797018963968)"
  by code_simp

lemma double_big_plus_one:
  "Finite 10000000000000000 + Finite 1 = Finite 10000000000000000"
  by code_simp

lemma double_big_plus_two:
  "Finite 10000000000000000 + Finite 2 = Finite 10000000000000002"
  by code_simp

lemma double_one_plus_one: "Finite 1 + Finite 1 = Finite 2"
  by code_simp

text \<open>
  C7. \<^verbatim>\<open>translate\<close> adds \<open>dx\<close> to both x-coordinates and \<open>dy\<close> to both y-coordinates, with
  the addition of the coordinate type, and keeps the score; the argument is a value
  and is not changed. For integer coordinates and deltas, the type the annotations
  declare, two translations in a row are one translation by the sums of the deltas.
\<close>

theorem translate_compose_int:
  fixes r :: "'a::plus BoundingBox" and k :: "int BoundingBox"
  shows
  "x1 (translate r dx dy) = x1 r + dx \<and> y1 (translate r dx dy) = y1 r + dy \<and>
   x2 (translate r dx dy) = x2 r + dx \<and> y2 (translate r dx dy) = y2 r + dy \<and>
   score (translate r dx dy) = score r \<and>
   translate (translate k dx1 dy1) dx2 dy2 = translate k (dx1 + dx2) (dy1 + dy2)"
  by (simp add: translate_def)

text \<open>
  On float coordinates the law fails, each sum being rounded (the float \<open>0.1\<close> is the
  rational number in the first line). The rectangle
  \<open>(0.1, 0.1, 10.5, 20.5)\<close> translated by \<open>(1, 1)\<close> and then by \<open>(-1, -1)\<close> has
  \<open>x1 = 0.10000000000000009\<close>, while translated by \<open>(1 + -1, 1 + -1)\<close> it has \<open>x1 = 0.1\<close>.
  The rectangle \<open>(1e16, 0, 1e16, 0)\<close> translated twice by \<open>(1, 1)\<close> keeps \<open>x1 = 1e16\<close>,
  while translated by \<open>(1 + 1, 1 + 1)\<close> it has \<open>x1 = 1e16 + 2\<close>.
\<close>

theorem translate_compose_float_counterexample:
  "round_double (1 / 10) = Finite (3602879701896397 / 36028797018963968) \<and>
   translate
     (translate \<lparr>x1 = Finite (3602879701896397 / 36028797018963968),
                 y1 = Finite (3602879701896397 / 36028797018963968),
                 x2 = Finite (21 / 2), y2 = Finite (41 / 2), score = 9 / 10\<rparr>
        (Finite 1) (Finite 1))
     (Finite (- 1)) (Finite (- 1))
   \<noteq> translate \<lparr>x1 = Finite (3602879701896397 / 36028797018963968),
                  y1 = Finite (3602879701896397 / 36028797018963968),
                  x2 = Finite (21 / 2), y2 = Finite (41 / 2), score = 9 / 10\<rparr>
        (Finite 1 + Finite (- 1)) (Finite 1 + Finite (- 1)) \<and>
   x1 (translate
         (translate \<lparr>x1 = Finite (3602879701896397 / 36028797018963968),
                     y1 = Finite (3602879701896397 / 36028797018963968),
                     x2 = Finite (21 / 2), y2 = Finite (41 / 2), score = 9 / 10\<rparr>
            (Finite 1) (Finite 1))
         (Finite (- 1)) (Finite (- 1)))
     = Finite (225179981368525 / 2251799813685248) \<and>
   x1 (translate \<lparr>x1 = Finite (3602879701896397 / 36028797018963968),
                  y1 = Finite (3602879701896397 / 36028797018963968),
                  x2 = Finite (21 / 2), y2 = Finite (41 / 2), score = 9 / 10\<rparr>
         (Finite 1 + Finite (- 1)) (Finite 1 + Finite (- 1)))
     = Finite (3602879701896397 / 36028797018963968) \<and>
   translate
     (translate \<lparr>x1 = Finite 10000000000000000, y1 = Finite 0,
                 x2 = Finite 10000000000000000, y2 = Finite 0, score = 0\<rparr>
        (Finite 1) (Finite 1))
     (Finite 1) (Finite 1)
   \<noteq> translate \<lparr>x1 = Finite 10000000000000000, y1 = Finite 0,
                  x2 = Finite 10000000000000000, y2 = Finite 0, score = 0\<rparr>
        (Finite 1 + Finite 1) (Finite 1 + Finite 1)"
  by (simp add: translate_def double_tenth double_tenth_plus_one double_tenth_plus_one_minus_one
        double_one_minus_one double_tenth_plus_zero double_big_plus_one double_big_plus_two
        double_one_plus_one)

text \<open>
  C8. \<^verbatim>\<open>intersects\<close> is true exactly when the rectangles are not separated on the x-axis
  nor on the y-axis, the comparisons being strict: rectangles that share an edge or a
  corner intersect, as \<open>(0, 0, 5, 5)\<close> and \<open>(5, 5, 10, 10)\<close> do, whatever their scores.
\<close>

theorem intersects_touching:
  "intersects a b = (\<not> (x2 a < x1 b \<or> x1 a > x2 b \<or> y2 a < y1 b \<or> y1 a > y2 b)) \<and>
   intersects \<lparr>x1 = 0::int, y1 = 0, x2 = 5, y2 = 5, score = s\<rparr>
              \<lparr>x1 = 5, y1 = 5, x2 = 10, y2 = 10, score = t\<rparr>"
  by (simp add: intersects_def)

text \<open>
  C9. The bounds that \<^verbatim>\<open>crop_image\<close> slices with are the floors of \<open>x1\<close> and \<open>y1\<close>, not
  below 0, and the ceilings of \<open>x2\<close> and \<open>y2\<close>, not above the width and the height of the
  image. So the lower bounds are never negative and the upper bounds never exceed the
  image, and the box \<open>(-5, 0, width + 5, height)\<close> is cropped with the bounds
  \<open>(0, 0, width, height)\<close>.
\<close>

theorem crop_window_clamped:
  "crop_window b h w = (max \<lfloor>x1 b\<rfloor> 0, max \<lfloor>y1 b\<rfloor> 0, min \<lceil>x2 b\<rceil> w, min \<lceil>y2 b\<rceil> h) \<and>
   0 \<le> fst (crop_window b h w) \<and> 0 \<le> fst (snd (crop_window b h w)) \<and>
   fst (snd (snd (crop_window b h w))) \<le> w \<and> snd (snd (snd (crop_window b h w))) \<le> h \<and>
   crop_window \<lparr>x1 = - 5, y1 = 0, x2 = of_int w + 5, y2 = of_int h, score = s\<rparr> h w
     = (0, 0, w, h)"
  by (simp add: crop_window_def)

section \<open>Merging a collection\<close>

text \<open>
  C10. \<^verbatim>\<open>merge_intersection\<close> loses no coverage: every rectangle of the collection before
  the call is enclosed by a rectangle of the collection after it, and the collection
  after the call has at most as many rectangles as before. Enclosure is \<open>encloses\<close>;
  for a rectangle with \<open>x1 \<le> x2\<close> and \<open>y1 \<le> y2\<close> all four of its coordinates then lie
  within the enclosing rectangle.
\<close>

theorem merge_intersection_covers:
  "(\<forall>a \<in> set (boxes bbs). \<exists>c \<in> set (boxes (merge_intersection bbs)). encloses c a) \<and>
   length (boxes (merge_intersection bbs)) \<le> length (boxes bbs)"
  using merge_loop_covers [of _ "boxes bbs" "[]"] merge_loop_length [of "boxes bbs" "[]"]
  by (simp add: merge_intersection_def)

theorem merge_intersection_covers_witness:
  "\<lparr>x1 = 12::int, y1 = 12, x2 = 20, y2 = 20, score = 6 / 10\<rparr>
     \<in> set (boxes
         \<lparr>boxes = [\<lparr>x1 = 0::int, y1 = 0, x2 = 10, y2 = 10, score = 5 / 10\<rparr>,
              \<lparr>x1 = 5, y1 = 5, x2 = 15, y2 = 15, score = 7 / 10\<rparr>,
              \<lparr>x1 = 12, y1 = 12, x2 = 20, y2 = 20, score = 6 / 10\<rparr>]\<rparr>) \<and>
   (\<exists>c \<in> set (boxes (merge_intersection
         \<lparr>boxes = [\<lparr>x1 = 0::int, y1 = 0, x2 = 10, y2 = 10, score = 5 / 10\<rparr>,
              \<lparr>x1 = 5, y1 = 5, x2 = 15, y2 = 15, score = 7 / 10\<rparr>,
              \<lparr>x1 = 12, y1 = 12, x2 = 20, y2 = 20, score = 6 / 10\<rparr>]\<rparr>)).
      encloses c \<lparr>x1 = 12, y1 = 12, x2 = 20, y2 = 20, score = 6 / 10\<rparr>) \<and>
   boxes (merge_intersection
         \<lparr>boxes = [\<lparr>x1 = 0::int, y1 = 0, x2 = 10, y2 = 10, score = 5 / 10\<rparr>,
              \<lparr>x1 = 5, y1 = 5, x2 = 15, y2 = 15, score = 7 / 10\<rparr>,
              \<lparr>x1 = 12, y1 = 12, x2 = 20, y2 = 20, score = 6 / 10\<rparr>]\<rparr>)
     = [\<lparr>x1 = 0, y1 = 0, x2 = 20, y2 = 20, score = 7 / 10\<rparr>]"
proof -
  let ?B = "\<lparr>boxes = [\<lparr>x1 = 0::int, y1 = 0, x2 = 10, y2 = 10, score = 5 / 10\<rparr>,
              \<lparr>x1 = 5, y1 = 5, x2 = 15, y2 = 15, score = 7 / 10\<rparr>,
              \<lparr>x1 = 12, y1 = 12, x2 = 20, y2 = 20, score = 6 / 10\<rparr>]\<rparr>"
  let ?a = "\<lparr>x1 = 12::int, y1 = 12, x2 = 20, y2 = 20, score = 6 / 10\<rparr>"
  have mem: "?a \<in> set (boxes ?B)" by simp
  from merge_intersection_covers [of ?B] mem
  have ex: "\<exists>c \<in> set (boxes (merge_intersection ?B)). encloses c ?a" by blast
  have ev: "boxes (merge_intersection ?B) = [\<lparr>x1 = 0, y1 = 0, x2 = 20, y2 = 20, score = 7 / 10\<rparr>]"
    by code_simp
  from mem ex ev show ?thesis by blast
qed

text \<open>
  C1. The docstring of \<^verbatim>\<open>merge_intersection\<close> promises "a list of non-intersecting
  BoundingBox objects". On the collection \<open>(0,0,1,1)\<close>, \<open>(10,10,11,11)\<close>, \<open>(1,1,10,10)\<close>
  the call leaves the two rectangles \<open>(0,0,10,10)\<close> and \<open>(10,10,11,11)\<close>, which
  intersect: the second rectangle was passed over while the accumulator was still
  \<open>(0,0,1,1)\<close>, and it is not looked at again after the accumulator has grown.
\<close>

theorem merge_intersection_leaves_intersecting_pair:
  "boxes (merge_intersection
         \<lparr>boxes = [\<lparr>x1 = 0::int, y1 = 0, x2 = 1, y2 = 1, score = 5 / 10\<rparr>,
              \<lparr>x1 = 10, y1 = 10, x2 = 11, y2 = 11, score = 7 / 10\<rparr>,
              \<lparr>x1 = 1, y1 = 1, x2 = 10, y2 = 10, score = 6 / 10\<rparr>]\<rparr>)
     = [\<lparr>x1 = 0, y1 = 0, x2 = 10, y2 = 10, score = 6 / 10\<rparr>,
        \<lparr>x1 = 10, y1 = 10, x2 = 11, y2 = 11, score = 7 / 10\<rparr>] \<and>
   intersects \<lparr>x1 = 0::int, y1 = 0, x2 = 10, y2 = 10, score = 6 / 10\<rparr>
              \<lparr>x1 = 10, y1 = 10, x2 = 11, y2 = 11, score = 7 / 10\<rparr> \<and>
   \<not> non_intersecting (boxes (merge_intersection
         \<lparr>boxes = [\<lparr>x1 = 0::int, y1 = 0, x2 = 1, y2 = 1, score = 5 / 10\<rparr>,
              \<lparr>x1 = 10, y1 = 10, x2 = 11, y2 = 11, score = 7 / 10\<rparr>,
              \<lparr>x1 = 1, y1 = 1, x2 = 10, y2 = 10, score = 6 / 10\<rparr>]\<rparr>))"
  by code_simp

text \<open>
  C2. The scan for a seed is one pass: the index is never set back. For the seed
  \<open>(0,0,1,1)\<close> and the remaining rectangles \<open>(10,10,11,11)\<close>, \<open>(1,1,10,10)\<close> the scan
  ends with the accumulator \<open>(0,0,10,10)\<close> while \<open>(10,10,11,11)\<close>, which intersects
  it, is still in the list; the accumulator is appended to the result all the same.
\<close>

theorem scan_loop_single_pass:
  "scan_loop \<lparr>x1 = 0::int, y1 = 0, x2 = 1, y2 = 1, score = 5 / 10\<rparr>
     [\<lparr>x1 = 10, y1 = 10, x2 = 11, y2 = 11, score = 7 / 10\<rparr>,
      \<lparr>x1 = 1, y1 = 1, x2 = 10, y2 = 10, score = 6 / 10\<rparr>] 0
     = (\<lparr>x1 = 0, y1 = 0, x2 = 10, y2 = 10, score = 6 / 10\<rparr>,
        [\<lparr>x1 = 10, y1 = 10, x2 = 11, y2 = 11, score = 7 / 10\<rparr>]) \<and>
   intersects \<lparr>x1 = 0::int, y1 = 0, x2 = 10, y2 = 10, score = 6 / 10\<rparr>
              \<lparr>x1 = 10, y1 = 10, x2 = 11, y2 = 11, score = 7 / 10\<rparr> \<and>
   merge_loop [\<lparr>x1 = 0::int, y1 = 0, x2 = 1, y2 = 1, score = 5 / 10\<rparr>,
               \<lparr>x1 = 10, y1 = 10, x2 = 11, y2 = 11, score = 7 / 10\<rparr>,
               \<lparr>x1 = 1, y1 = 1, x2 = 10, y2 = 10, score = 6 / 10\<rparr>] []
     = [\<lparr>x1 = 0, y1 = 0, x2 = 10, y2 = 10, score = 6 / 10\<rparr>,
        \<lparr>x1 = 10, y1 = 10, x2 = 11, y2 = 11, score = 7 / 10\<rparr>]"
  by code_simp

text \<open>
  C3. A second call can change the collection again: on the collection of C1 the
  first call gives \<open>(0,0,10,10)\<close>, \<open>(10,10,11,11)\<close> and the second call merges these two
  into \<open>(0,0,11,11)\<close>.
\<close>

theorem merge_intersection_twice_differs:
  "merge_intersection
         \<lparr>boxes = [\<lparr>x1 = 0::int, y1 = 0, x2 = 1, y2 = 1, score = 5 / 10\<rparr>,
              \<lparr>x1 = 10, y1 = 10, x2 = 11, y2 = 11, score = 7 / 10\<rparr>,
              \<lparr>x1 = 1, y1 = 1, x2 = 10, y2 = 10, score = 6 / 10\<rparr>]\<rparr>
     = \<lparr>boxes = [\<lparr>x1 = 0, y1 = 0, x2 = 10, y2 = 10, score = 6 / 10\<rparr>,
                  \<lparr>x1 = 10, y1 = 10, x2 = 11, y2 = 11, score = 7 / 10\<rparr>]\<rparr> \<and>
   merge_intersection (merge_intersection
         \<lparr>boxes = [\<lparr>x1 = 0::int, y1 = 0, x2 = 1, y2 = 1, score = 5 / 10\<rparr>,
              \<lparr>x1 = 10, y1 = 10, x2 = 11, y2 = 11, score = 7 / 10\<rparr>,
              \<lparr>x1 = 1, y1 = 1, x2 = 10, y2 = 10, score = 6 / 10\<rparr>]\<rparr>)
     = \<lparr>boxes = [\<lparr>x1 = 0, y1 = 0, x2 = 11, y2 = 11, score = 7 / 10\<rparr>]\<rparr> \<and>
   merge_intersection (merge_intersection
         \<lparr>boxes = [\<lparr>x1 = 0::int, y1 = 0, x2 = 1, y2 = 1, score = 5 / 10\<rparr>,
              \<lparr>x1 = 10, y1 = 10, x2 = 11, y2 = 11, score = 7 / 10\<rparr>,
              \<lparr>x1 = 1, y1 = 1, x2 = 10, y2 = 10, score = 6 / 10\<rparr>]\<rparr>)
     \<noteq> merge_intersection
         \<lparr>boxes = [\<lparr>x1 = 0::int, y1 = 0, x2 = 1, y2 = 1, score = 5 / 10\<rparr>,
              \<lparr>x1 = 10, y1 = 10, x2 = 11, y2 = 11, score = 7 / 10\<rparr>,
              \<lparr>x1 = 1, y1 = 1, x2 = 10, y2 = 10, score = 6 / 10\<rparr>]\<rparr>"
  by code_simp

text \<open>
  C4. The order of the collection changes the set of rectangles that comes out: the
  rectangles \<open>(0,0,1,1)\<close>, \<open>(1,1,10,10)\<close>, \<open>(10,10,11,11)\<close> in this order merge into the
  single rectangle \<open>(0,0,11,11)\<close>, and with the last two exchanged into the two
  rectangles \<open>(0,0,10,10)\<close> and \<open>(10,10,11,11)\<close>.
\<close>

theorem merge_intersection_order_dependent:
  "mset [\<lparr>x1 = 0::int, y1 = 0, x2 = 1, y2 = 1, score = 5 / 10\<rparr>,
         \<lparr>x1 = 1, y1 = 1, x2 = 10, y2 = 10, score = 6 / 10\<rparr>,
         \<lparr>x1 = 10, y1 = 10, x2 = 11, y2 = 11, score = 7 / 10\<rparr>]
     = mset [\<lparr>x1 = 0::int, y1 = 0, x2 = 1, y2 = 1, score = 5 / 10\<rparr>,
             \<lparr>x1 = 10, y1 = 10, x2 = 11, y2 = 11, score = 7 / 10\<rparr>,
             \<lparr>x1 = 1, y1 = 1, x2 = 10, y2 = 10, score = 6 / 10\<rparr>] \<and>
   boxes (merge_intersection
         \<lparr>boxes = [\<lparr>x1 = 0::int, y1 = 0, x2 = 1, y2 = 1, score = 5 / 10\<rparr>,
              \<lparr>x1 = 1, y1 = 1, x2 = 10, y2 = 10, score = 6 / 10\<rparr>,
              \<lparr>x1 = 10, y1 = 10, x2 = 11, y2 = 11, score = 7 / 10\<rparr>]\<rparr>)
     = [\<lparr>x1 = 0, y1 = 0, x2 = 11, y2 = 11, score = 7 / 10\<rparr>] \<and>
   boxes (merge_intersection
         \<lparr>boxes = [\<lparr>x1 = 0::int, y1 = 0, x2 = 1, y2 = 1, score = 5 / 10\<rparr>,
              \<lparr>x1 = 10, y1 = 10, x2 = 11, y2 = 11, score = 7 / 10\<rparr>,
              \<lparr>x1 = 1, y1 = 1, x2 = 10, y2 = 10, score = 6 / 10\<rparr>]\<rparr>)
     = [\<lparr>x1 = 0, y1 = 0, x2 = 10, y2 = 10, score = 6 / 10\<rparr>,
        \<lparr>x1 = 10, y1 = 10, x2 = 11, y2 = 11, score = 7 / 10\<rparr>] \<and>
   set (boxes (merge_intersection
         \<lparr>boxes = [\<lparr>x1 = 0::int, y1 = 0, x2 = 1, y2 = 1, score = 5 / 10\<rparr>,
              \<lparr>x1 = 1, y1 = 1, x2 = 10, y2 = 10, score = 6 / 10\<rparr>,
              \<lparr>x1 = 10, y1 = 10, x2 = 11, y2 = 11, score = 7 / 10\<rparr>]\<rparr>))
     \<noteq> set (boxes (merge_intersection
         \<lparr>boxes = [\<lparr>x1 = 0::int, y1 = 0, x2 = 1, y2 = 1, score = 5 / 10\<rparr>,
              \<lparr>x1 = 10, y1 = 10, x2 = 11, y2 = 11, score = 7 / 10\<rparr>,
              \<lparr>x1 = 1, y1 = 1, x2 = 10, y2 = 10, score = 6 / 10\<rparr>]\<rparr>))"
  by code_simp

end
